theory Spec2Isabelle
  imports Main "HOL-Library.Word"
begin

section \<open>The declarations of nrf\_fmfu.h\<close>

subsection \<open>Function return codes\<close>

text \<open>
  The header gives the return codes as object-like macros whose bodies are the integer
  literal \<open>0\<close> and the negated literals \<open>-1\<close> .. \<open>-7\<close>, all of C type \<open>int\<close>. They are
  far from the bounds of \<open>int\<close>, so they are embedded as mathematical integers.
\<close>

definition NRF_FMFU_RET_SUCCESS :: int where
  "NRF_FMFU_RET_SUCCESS = 0"

definition NRF_FMFU_RET_IPC_FAULT_EVENT :: int where
  "NRF_FMFU_RET_IPC_FAULT_EVENT = - 1"

definition NRF_FMFU_RET_UNEXPECTED_RESPONSE :: int where
  "NRF_FMFU_RET_UNEXPECTED_RESPONSE = - 2"

definition NRF_FMFU_RET_COMMAND_FAILED :: int where
  "NRF_FMFU_RET_COMMAND_FAILED = - 3"

definition NRF_FMFU_RET_COMMAND_FAULT :: int where
  "NRF_FMFU_RET_COMMAND_FAULT = - 4"

definition NRF_FMFU_RET_TIMEOUT :: int where
  "NRF_FMFU_RET_TIMEOUT = - 5"

definition NRF_FMFU_RET_INVALID_ARGUMENT :: int where
  "NRF_FMFU_RET_INVALID_ARGUMENT = - 6"

definition NRF_FMFU_RET_INVALID_OPERATION :: int where
  "NRF_FMFU_RET_INVALID_OPERATION = - 7"

text \<open>The seven failure kinds, and all eight codes, in the order of their declaration.\<close>

definition failure_codes :: "int list" where
  "failure_codes =
     [NRF_FMFU_RET_IPC_FAULT_EVENT, NRF_FMFU_RET_UNEXPECTED_RESPONSE,
      NRF_FMFU_RET_COMMAND_FAILED, NRF_FMFU_RET_COMMAND_FAULT, NRF_FMFU_RET_TIMEOUT,
      NRF_FMFU_RET_INVALID_ARGUMENT, NRF_FMFU_RET_INVALID_OPERATION]"

definition return_codes :: "int list" where
  "return_codes = NRF_FMFU_RET_SUCCESS # failure_codes"

subsection \<open>Modem states\<close>

definition NRF_FMFU_MODEM_STATE_UNINITIALIZED :: int where
  "NRF_FMFU_MODEM_STATE_UNINITIALIZED = 1"

definition NRF_FMFU_MODEM_STATE_WAITING_FOR_BOOTLOADER :: int where
  "NRF_FMFU_MODEM_STATE_WAITING_FOR_BOOTLOADER = 2"

definition NRF_FMFU_MODEM_STATE_READY_FOR_IPC_COMMANDS :: int where
  "NRF_FMFU_MODEM_STATE_READY_FOR_IPC_COMMANDS = 3"

definition NRF_FMFU_MODEM_STATE_BAD :: int where
  "NRF_FMFU_MODEM_STATE_BAD = 4"

definition modem_states :: "int list" where
  "modem_states =
     [NRF_FMFU_MODEM_STATE_UNINITIALIZED, NRF_FMFU_MODEM_STATE_WAITING_FOR_BOOTLOADER,
      NRF_FMFU_MODEM_STATE_READY_FOR_IPC_COMMANDS, NRF_FMFU_MODEM_STATE_BAD]"

subsection \<open>Data structures\<close>

definition NRF_FMFU_DIGEST_BUFFER_LEN :: nat where
  "NRF_FMFU_DIGEST_BUFFER_LEN = 32"

definition NRF_FMFU_UUID_BUFFER_LEN :: nat where
  "NRF_FMFU_UUID_BUFFER_LEN = 36"

text \<open>
  \<^verbatim>\<open>struct nrf_fmfu_digest_buffer_t { uint8_t data[NRF_FMFU_DIGEST_BUFFER_LEN]; };\<close>
  A C array has a fixed number of elements, so the structure is the type of the byte
  lists of that length; \<open>Rep_nrf_fmfu_digest_buffer_t\<close> reads the member \<open>data\<close>.
\<close>

typedef nrf_fmfu_digest_buffer_t =
  "{bs :: 8 word list. length bs = NRF_FMFU_DIGEST_BUFFER_LEN}"
  by (rule exI [of _ "replicate NRF_FMFU_DIGEST_BUFFER_LEN 0"]) simp

text \<open>
  \<^verbatim>\<open>struct nrf_fmfu_uuid_t { uint8_t data[NRF_FMFU_UUID_BUFFER_LEN]; };\<close>
\<close>

typedef nrf_fmfu_uuid_t =
  "{bs :: 8 word list. length bs = NRF_FMFU_UUID_BUFFER_LEN}"
  by (rule exI [of _ "replicate NRF_FMFU_UUID_BUFFER_LEN 0"]) simp

text \<open>
  \<^verbatim>\<open>struct nrf_fmfu_memory_chunk_t { uint32_t target_address; uint32_t data_len; uint8_t *data; };\<close>
  The member \<open>data\<close> points to bytes that the caller owns; the record holds the bytes
  found there.
\<close>

record nrf_fmfu_memory_chunk_t =
  target_address :: "32 word"
  data_len :: "32 word"
  data :: "8 word list"

section \<open>The documented behaviour of the functions\<close>

text \<open>
  The header declares the eight functions and documents them; their bodies are in the
  library that the header belongs to and not among the sources. What follows embeds the
  behaviour that the documentation comments of \<^verbatim>\<open>nrf_fmfu.h\<close> and the specification
  give for them. Two things the documentation leaves open are parameters of the
  embedding, so that every statement below holds whatever they are: the modem states in
  which an operation is allowed, and the modem state the library is left in after a
  failure other than a fault signalled by the modem.
\<close>

text \<open>
  Modelled from the spec: the variable that holds the modem state is not in the
  sources. "Modem state: an enumerated value with four members -- uninitialized,
  waiting-for-bootloader, ready-for-IPC-commands, bad (error)."
\<close>

datatype modem_state =
  UNINITIALIZED | WAITING_FOR_BOOTLOADER | READY_FOR_IPC_COMMANDS | BAD

text \<open>The integer that stands for a modem state, by the macros of the header.\<close>

fun modem_state_value :: "modem_state \<Rightarrow> int" where
  "modem_state_value UNINITIALIZED = NRF_FMFU_MODEM_STATE_UNINITIALIZED"
| "modem_state_value WAITING_FOR_BOOTLOADER = NRF_FMFU_MODEM_STATE_WAITING_FOR_BOOTLOADER"
| "modem_state_value READY_FOR_IPC_COMMANDS = NRF_FMFU_MODEM_STATE_READY_FOR_IPC_COMMANDS"
| "modem_state_value BAD = NRF_FMFU_MODEM_STATE_BAD"

text \<open>
  Modelled from the spec: the state that the absent function bodies work on. It is the
  modem state, whether a segment transfer has been started, and the caller's memory
  that the output pointers of the functions point into, one typed store per kind of
  object pointed to. A pointer is an address or \<open>None\<close> for \<^verbatim>\<open>NULL\<close>.
\<close>

type_synonym addr = nat

record fmfu =
  modem_state :: modem_state
  transfer_started :: bool
  digest_mem :: "addr \<rightharpoonup> nrf_fmfu_digest_buffer_t"
  uint32_mem :: "addr \<rightharpoonup> 32 word"
  uuid_mem :: "addr \<rightharpoonup> nrf_fmfu_uuid_t"

text \<open>
  Modelled from the spec: what the modem does in answer to a command is not in the
  sources. The comments of the return codes name the cases: a fault signalled on the
  fault IPC channel, no response before the timeout, the responses
  \<^verbatim>\<open>MODEM_RPC_RESP_CMD_ERROR\<close> and \<^verbatim>\<open>MODEM_RPC_RESP_UNKNOWN_CMD\<close>, a response whose
  id is not the expected one, and the expected response with its payload.
\<close>

datatype 'a modem_reply =
  IPC_FAULT | NO_REPLY | RESP_CMD_ERROR | RESP_UNKNOWN_CMD | RESP_UNEXPECTED
  | RESP_EXPECTED 'a

text \<open>
  Modelled from the spec: the return code for a modem reply, by the comments of the
  return codes in the header.
\<close>

fun reply_code :: "'a modem_reply \<Rightarrow> int" where
  "reply_code IPC_FAULT = NRF_FMFU_RET_IPC_FAULT_EVENT"
| "reply_code NO_REPLY = NRF_FMFU_RET_TIMEOUT"
| "reply_code RESP_CMD_ERROR = NRF_FMFU_RET_COMMAND_FAILED"
| "reply_code RESP_UNKNOWN_CMD = NRF_FMFU_RET_COMMAND_FAULT"
| "reply_code RESP_UNEXPECTED = NRF_FMFU_RET_UNEXPECTED_RESPONSE"
| "reply_code (RESP_EXPECTED x) = NRF_FMFU_RET_SUCCESS"

text \<open>
  The modem state after a failure whose effect on the state is not documented, as a
  function of the return code and the state before: a parameter of every function.
\<close>

type_synonym undocumented = "int \<Rightarrow> modem_state \<Rightarrow> modem_state"

text \<open>
  Modelled from the spec: leaving a function with a failure code. "Any fault moves it
  to bad"; for the other failures the documentation gives no state.
\<close>

definition failed :: "undocumented \<Rightarrow> int \<Rightarrow> fmfu \<Rightarrow> int \<times> fmfu" where
  "failed u code s = (code, s\<lparr>modem_state := u code (modem_state s)\<rparr>)"

definition faulted :: "fmfu \<Rightarrow> int \<times> fmfu" where
  "faulted s = (NRF_FMFU_RET_IPC_FAULT_EVENT, s\<lparr>modem_state := BAD\<rparr>)"

definition replied :: "undocumented \<Rightarrow> 'a modem_reply \<Rightarrow> fmfu \<Rightarrow> int \<times> fmfu" where
  "replied u r s = (case r of IPC_FAULT \<Rightarrow> faulted s | _ \<Rightarrow> failed u (reply_code r) s)"

subsection \<open>nrf\_fmfu\_init\<close>

text \<open>
  Modelled from the spec: the outcomes of the modem that the documentation of
  \<^verbatim>\<open>nrf_fmfu_init\<close> names: the modem signals a fault, it replies with something
  unexpected, or it replies with its root key digest.
\<close>

datatype init_reply =
  INIT_FAULT | INIT_UNEXPECTED | INIT_DIGEST nrf_fmfu_digest_buffer_t

text \<open>
  Modelled from the spec: the body of \<^verbatim>\<open>nrf_fmfu_init\<close> is not in the sources.
  "The root key digest response of the modem is put in the digest\_buffer structure. The
  size reserved for modem RPC buffer is put in the modem\_buffer\_length argument. If
  success, the modem will be in NRF\_FMFU\_RPC\_MODEM\_STATE\_WAITING\_FOR\_BOOTLOADER
  state." It returns \<^verbatim>\<open>NRF_FMFU_RET_INVALID_ARGUMENT\<close> "when input parameter is NULL",
  \<^verbatim>\<open>NRF_FMFU_RET_IPC_FAULT_EVENT\<close> "when modem signaled fault" and
  \<^verbatim>\<open>NRF_FMFU_RET_UNEXPECTED_RESPONSE\<close> "when modem replies with unexpected response".
  It may be called in every modem state. \<open>rpc_len\<close> is the size reserved for the modem
  RPC buffer.
\<close>

definition nrf_fmfu_init ::
  "init_reply \<Rightarrow> 32 word \<Rightarrow> undocumented \<Rightarrow> addr option \<Rightarrow> addr option \<Rightarrow> fmfu \<Rightarrow> int \<times> fmfu"
where
  "nrf_fmfu_init reply rpc_len u digest_buffer modem_buffer_length s =
     (case digest_buffer of
        None \<Rightarrow> failed u NRF_FMFU_RET_INVALID_ARGUMENT s
      | Some dp \<Rightarrow>
         (case modem_buffer_length of
            None \<Rightarrow> failed u NRF_FMFU_RET_INVALID_ARGUMENT s
          | Some lp \<Rightarrow>
             (case reply of
                INIT_FAULT \<Rightarrow> faulted s
              | INIT_UNEXPECTED \<Rightarrow> failed u NRF_FMFU_RET_UNEXPECTED_RESPONSE s
              | INIT_DIGEST d \<Rightarrow>
                  (NRF_FMFU_RET_SUCCESS,
                   s\<lparr>modem_state := WAITING_FOR_BOOTLOADER,
                     digest_mem := (digest_mem s)(dp \<mapsto> d),
                     uint32_mem := (uint32_mem s)(lp \<mapsto> rpc_len)\<rparr>))))"

subsection \<open>nrf\_fmfu\_write\_memory\_chunk\<close>

text \<open>
  Modelled from the spec: what a chunk upload hands to the modem is not in the sources.
  A firmware chunk goes to the modem with its destination address ("read by the
  modem"); for the bootloader the address is "not used". The bytes are the first
  \<open>data_len\<close> bytes that \<open>data\<close> points to.
\<close>

datatype chunk_request =
  BOOTLOADER_DATA "8 word list" | FIRMWARE_DATA "32 word" "8 word list"

definition chunk_bytes :: "nrf_fmfu_memory_chunk_t \<Rightarrow> 8 word list" where
  "chunk_bytes c = take (unat (data_len c)) (data c)"

text \<open>
  Modelled from the spec: which upload a modem state admits. "Bootloader segment must
  be uploaded first which sets the modem to NRF\_FMFU\_MODEM\_STATE\_READY\_FOR\_IPC\_COMMANDS
  state. Firmware segments can be uploaded after successful bootloader upload." So the
  chunk written while the modem waits for the bootloader is bootloader data, the chunk
  written when it is ready for IPC commands is firmware data, and no chunk is written
  in the other two states. Each chunk is classed by the modem state at the time of the
  call: the documentation does not say how the library tells the chunks of a segment of
  several chunks apart, so nothing below speaks about a whole segment.
\<close>

fun chunk_request_of :: "modem_state \<Rightarrow> nrf_fmfu_memory_chunk_t \<Rightarrow> chunk_request option" where
  "chunk_request_of WAITING_FOR_BOOTLOADER c = Some (BOOTLOADER_DATA (chunk_bytes c))"
| "chunk_request_of READY_FOR_IPC_COMMANDS c =
     Some (FIRMWARE_DATA (target_address c) (chunk_bytes c))"
| "chunk_request_of UNINITIALIZED c = None"
| "chunk_request_of BAD c = None"

text \<open>The modem state after a chunk that the modem accepted.\<close>

fun after_chunk :: "chunk_request \<Rightarrow> modem_state \<Rightarrow> modem_state" where
  "after_chunk (BOOTLOADER_DATA bs) st = READY_FOR_IPC_COMMANDS"
| "after_chunk (FIRMWARE_DATA a bs) st = st"

text \<open>
  Modelled from the spec: the body of \<^verbatim>\<open>nrf_fmfu_write_memory_chunk\<close> is not in the
  sources. It returns \<^verbatim>\<open>NRF_FMFU_RET_INVALID_ARGUMENT\<close> "when input parameter is
  NULL", \<^verbatim>\<open>NRF_FMFU_RET_INVALID_OPERATION\<close> "when modem is in wrong state", and
  otherwise the code of the modem's reply to the chunk. \<open>modem\<close> is the modem: the reply
  it gives to a request.
\<close>

definition nrf_fmfu_write_memory_chunk ::
  "(chunk_request \<Rightarrow> unit modem_reply) \<Rightarrow> undocumented \<Rightarrow> nrf_fmfu_memory_chunk_t option
     \<Rightarrow> fmfu \<Rightarrow> int \<times> fmfu"
where
  "nrf_fmfu_write_memory_chunk modem u memory_chunk s =
     (case memory_chunk of
        None \<Rightarrow> failed u NRF_FMFU_RET_INVALID_ARGUMENT s
      | Some c \<Rightarrow>
         (case chunk_request_of (modem_state s) c of
            None \<Rightarrow> failed u NRF_FMFU_RET_INVALID_OPERATION s
          | Some rq \<Rightarrow>
             (case modem rq of
                RESP_EXPECTED x \<Rightarrow>
                  (NRF_FMFU_RET_SUCCESS, s\<lparr>modem_state := after_chunk rq (modem_state s)\<rparr>)
              | r \<Rightarrow> replied u r s)))"

subsection \<open>nrf\_fmfu\_transfer\_start\<close>

text \<open>
  Modelled from the spec: the body of \<^verbatim>\<open>nrf_fmfu_transfer_start\<close> is not in the
  sources. It "begins a logical segment transfer" and returns
  \<^verbatim>\<open>NRF_FMFU_RET_SUCCESS\<close> "on success" and \<^verbatim>\<open>NRF_FMFU_RET_INVALID_OPERATION\<close> "when
  modem is in wrong state". \<open>allowed\<close> tells the states in which a transfer may start.
\<close>

definition nrf_fmfu_transfer_start ::
  "(modem_state \<Rightarrow> bool) \<Rightarrow> undocumented \<Rightarrow> fmfu \<Rightarrow> int \<times> fmfu"
where
  "nrf_fmfu_transfer_start allowed u s =
     (if allowed (modem_state s) then (NRF_FMFU_RET_SUCCESS, s\<lparr>transfer_started := True\<rparr>)
      else failed u NRF_FMFU_RET_INVALID_OPERATION s)"

subsection \<open>nrf\_fmfu\_get\_memory\_hash and nrf\_fmfu\_get\_uuid\<close>

text \<open>
  Modelled from the spec: the body of \<^verbatim>\<open>nrf_fmfu_get_memory_hash\<close> is not in the
  sources. It "returns a 256-bit digest over [start\_address, end\_address)" into the
  digest buffer. "Calling any modem-query function with a null output-pointer argument
  must yield the invalid-argument code", so that check is the first; then
  \<^verbatim>\<open>NRF_FMFU_RET_INVALID_OPERATION\<close> "when modem is in wrong state", and otherwise the
  code of the modem's reply.
\<close>

definition nrf_fmfu_get_memory_hash ::
  "(modem_state \<Rightarrow> bool) \<Rightarrow> (32 word \<Rightarrow> 32 word \<Rightarrow> nrf_fmfu_digest_buffer_t modem_reply)
     \<Rightarrow> undocumented \<Rightarrow> 32 word \<Rightarrow> 32 word \<Rightarrow> addr option \<Rightarrow> fmfu \<Rightarrow> int \<times> fmfu"
where
  "nrf_fmfu_get_memory_hash allowed modem u start_address end_address digest_buffer s =
     (case digest_buffer of
        None \<Rightarrow> failed u NRF_FMFU_RET_INVALID_ARGUMENT s
      | Some dp \<Rightarrow>
         (if \<not> allowed (modem_state s) then failed u NRF_FMFU_RET_INVALID_OPERATION s
          else
            (case modem start_address end_address of
               RESP_EXPECTED d \<Rightarrow>
                 (NRF_FMFU_RET_SUCCESS, s\<lparr>digest_mem := (digest_mem s)(dp \<mapsto> d)\<rparr>)
             | r \<Rightarrow> replied u r s)))"

text \<open>
  Modelled from the spec: the body of \<^verbatim>\<open>nrf_fmfu_get_uuid\<close> is not in the sources.
  It "returns device UUID bytes" into the UUID buffer, with the same checks and return
  codes as \<^verbatim>\<open>nrf_fmfu_get_memory_hash\<close>.
\<close>

definition nrf_fmfu_get_uuid ::
  "(modem_state \<Rightarrow> bool) \<Rightarrow> nrf_fmfu_uuid_t modem_reply \<Rightarrow> undocumented \<Rightarrow> addr option
     \<Rightarrow> fmfu \<Rightarrow> int \<times> fmfu"
where
  "nrf_fmfu_get_uuid allowed reply u modem_uuid s =
     (case modem_uuid of
        None \<Rightarrow> failed u NRF_FMFU_RET_INVALID_ARGUMENT s
      | Some up \<Rightarrow>
         (if \<not> allowed (modem_state s) then failed u NRF_FMFU_RET_INVALID_OPERATION s
          else
            (case reply of
               RESP_EXPECTED x \<Rightarrow>
                 (NRF_FMFU_RET_SUCCESS, s\<lparr>uuid_mem := (uuid_mem s)(up \<mapsto> x)\<rparr>)
             | r \<Rightarrow> replied u r s)))"

subsection \<open>nrf\_fmfu\_get\_modem\_state\<close>

text \<open>
  Modelled from the spec: the body of \<^verbatim>\<open>nrf_fmfu_get_modem_state\<close> is not in the
  sources. It "returns current state enum as the function's integer result" and has no
  failure.
\<close>

definition nrf_fmfu_get_modem_state :: "fmfu \<Rightarrow> int" where
  "nrf_fmfu_get_modem_state s = modem_state_value (modem_state s)"

section \<open>Properties of the declarations\<close>

lemmas return_code_defs =
  NRF_FMFU_RET_SUCCESS_def NRF_FMFU_RET_IPC_FAULT_EVENT_def
  NRF_FMFU_RET_UNEXPECTED_RESPONSE_def NRF_FMFU_RET_COMMAND_FAILED_def
  NRF_FMFU_RET_COMMAND_FAULT_def NRF_FMFU_RET_TIMEOUT_def
  NRF_FMFU_RET_INVALID_ARGUMENT_def NRF_FMFU_RET_INVALID_OPERATION_def

lemmas modem_state_defs =
  NRF_FMFU_MODEM_STATE_UNINITIALIZED_def NRF_FMFU_MODEM_STATE_WAITING_FOR_BOOTLOADER_def
  NRF_FMFU_MODEM_STATE_READY_FOR_IPC_COMMANDS_def NRF_FMFU_MODEM_STATE_BAD_def


text \<open>
  C4, as amended. There are eight return codes with pairwise different values: success
  is 0, and the seven failure kinds (IPC fault event, unexpected response, command
  failed, command fault, timeout, invalid argument, invalid operation) are the negative
  integers -1 .. -7, each with the value the header declares.
\<close>

theorem return_codes_declared:
  "length return_codes = 8 \<and> length failure_codes = 7 \<and> distinct return_codes
   \<and> return_codes = [0, - 1, - 2, - 3, - 4, - 5, - 6, - 7]
   \<and> NRF_FMFU_RET_SUCCESS = 0
   \<and> NRF_FMFU_RET_IPC_FAULT_EVENT < 0 \<and> NRF_FMFU_RET_UNEXPECTED_RESPONSE < 0
   \<and> NRF_FMFU_RET_COMMAND_FAILED < 0 \<and> NRF_FMFU_RET_COMMAND_FAULT < 0
   \<and> NRF_FMFU_RET_TIMEOUT < 0 \<and> NRF_FMFU_RET_INVALID_ARGUMENT < 0
   \<and> NRF_FMFU_RET_INVALID_OPERATION < 0"
  by (simp add: return_codes_def failure_codes_def NRF_FMFU_RET_SUCCESS_def
      NRF_FMFU_RET_IPC_FAULT_EVENT_def NRF_FMFU_RET_UNEXPECTED_RESPONSE_def
      NRF_FMFU_RET_COMMAND_FAILED_def NRF_FMFU_RET_COMMAND_FAULT_def
      NRF_FMFU_RET_TIMEOUT_def NRF_FMFU_RET_INVALID_ARGUMENT_def
      NRF_FMFU_RET_INVALID_OPERATION_def)

text \<open>
  C4, as stated, asks for eight negative codes. The success code is one of the eight
  and is not negative.
\<close>

theorem success_code_not_negative:
  "NRF_FMFU_RET_SUCCESS \<in> set return_codes \<and> \<not> NRF_FMFU_RET_SUCCESS < 0"
  by (simp add: return_codes_def NRF_FMFU_RET_SUCCESS_def)

text \<open>
  C5. The header declares exactly four modem states (uninitialized, waiting for
  bootloader, ready for IPC commands, bad); their values are 1, 2, 3 and 4 as declared,
  pairwise different.
\<close>

theorem modem_states_declared:
  "length modem_states = 4 \<and> distinct modem_states
   \<and> NRF_FMFU_MODEM_STATE_UNINITIALIZED = 1
   \<and> NRF_FMFU_MODEM_STATE_WAITING_FOR_BOOTLOADER = 2
   \<and> NRF_FMFU_MODEM_STATE_READY_FOR_IPC_COMMANDS = 3
   \<and> NRF_FMFU_MODEM_STATE_BAD = 4"
  by (simp add: modem_states_def NRF_FMFU_MODEM_STATE_UNINITIALIZED_def
      NRF_FMFU_MODEM_STATE_WAITING_FOR_BOOTLOADER_def
      NRF_FMFU_MODEM_STATE_READY_FOR_IPC_COMMANDS_def NRF_FMFU_MODEM_STATE_BAD_def)

text \<open>
  C6. Every digest buffer holds exactly 32 bytes and every UUID buffer exactly 36
  bytes: the two length constants are 32 and 36, and the member \<open>data\<close> of each
  structure has that many elements.
\<close>

theorem buffer_lengths:
  "NRF_FMFU_DIGEST_BUFFER_LEN = 32 \<and> NRF_FMFU_UUID_BUFFER_LEN = 36
   \<and> length (Rep_nrf_fmfu_digest_buffer_t d) = 32
   \<and> length (Rep_nrf_fmfu_uuid_t u) = 36"
proof -
  have "length (Rep_nrf_fmfu_digest_buffer_t d) = NRF_FMFU_DIGEST_BUFFER_LEN"
    using Rep_nrf_fmfu_digest_buffer_t [of d] by simp
  moreover have "length (Rep_nrf_fmfu_uuid_t u) = NRF_FMFU_UUID_BUFFER_LEN"
    using Rep_nrf_fmfu_uuid_t [of u] by simp
  ultimately show ?thesis
    by (simp add: NRF_FMFU_DIGEST_BUFFER_LEN_def NRF_FMFU_UUID_BUFFER_LEN_def)
qed

text \<open>
  C9. No modem-state value is a return-code value: the four modem states are the
  integers 1 .. 4, the success code is 0 and every failure code is negative. An integer
  that is one of the modem-state constants is therefore none of the return codes.
\<close>

theorem states_and_return_codes_disjoint:
  "set modem_states \<inter> set return_codes = {}
   \<and> set modem_states = {1, 2, 3, 4}
   \<and> NRF_FMFU_RET_SUCCESS = 0
   \<and> NRF_FMFU_RET_IPC_FAULT_EVENT < 0 \<and> NRF_FMFU_RET_UNEXPECTED_RESPONSE < 0
   \<and> NRF_FMFU_RET_COMMAND_FAILED < 0 \<and> NRF_FMFU_RET_COMMAND_FAULT < 0
   \<and> NRF_FMFU_RET_TIMEOUT < 0 \<and> NRF_FMFU_RET_INVALID_ARGUMENT < 0
   \<and> NRF_FMFU_RET_INVALID_OPERATION < 0"
  by (simp add: modem_states_def return_codes_def failure_codes_def
      NRF_FMFU_MODEM_STATE_UNINITIALIZED_def
      NRF_FMFU_MODEM_STATE_WAITING_FOR_BOOTLOADER_def
      NRF_FMFU_MODEM_STATE_READY_FOR_IPC_COMMANDS_def NRF_FMFU_MODEM_STATE_BAD_def
      NRF_FMFU_RET_SUCCESS_def
      NRF_FMFU_RET_IPC_FAULT_EVENT_def NRF_FMFU_RET_UNEXPECTED_RESPONSE_def
      NRF_FMFU_RET_COMMAND_FAILED_def NRF_FMFU_RET_COMMAND_FAULT_def
      NRF_FMFU_RET_TIMEOUT_def NRF_FMFU_RET_INVALID_ARGUMENT_def
      NRF_FMFU_RET_INVALID_OPERATION_def)

section \<open>Properties of the documented behaviour\<close>

subsection \<open>Return codes and modem states of the functions\<close>

lemma replied_fault_bad:
  "fst (replied u r s) = NRF_FMFU_RET_IPC_FAULT_EVENT \<Longrightarrow> modem_state (snd (replied u r s)) = BAD"
  by (cases r) (simp_all add: replied_def failed_def faulted_def return_code_defs)

text \<open>
  The chunk that \<^verbatim>\<open>nrf_fmfu_write_memory_chunk\<close> uploads with success while the modem
  waits for the bootloader leaves the modem ready for IPC commands.
\<close>

lemma bootloader_upload_ready:
  assumes "modem_state s = WAITING_FOR_BOOTLOADER"
    and "nrf_fmfu_write_memory_chunk modem u memory_chunk s = (NRF_FMFU_RET_SUCCESS, s')"
  shows "modem_state s' = READY_FOR_IPC_COMMANDS"
proof (cases memory_chunk)
  case None
  with assms show ?thesis
    by (simp add: nrf_fmfu_write_memory_chunk_def failed_def return_code_defs)
next
  case (Some c)
  show ?thesis
  proof (cases "modem (BOOTLOADER_DATA (chunk_bytes c))")
    case (RESP_EXPECTED x)
    with assms Some show ?thesis
      by (auto simp: nrf_fmfu_write_memory_chunk_def)
  qed (use assms Some in
      \<open>simp_all add: nrf_fmfu_write_memory_chunk_def replied_def failed_def faulted_def
         return_code_defs\<close>)
qed

text \<open>
  A fault that the modem signals during \<^verbatim>\<open>nrf_fmfu_init\<close> or during a chunk upload
  leaves the modem in the bad state.
\<close>

lemma init_fault_bad:
  assumes "nrf_fmfu_init reply rpc_len u digest_buffer modem_buffer_length s =
            (NRF_FMFU_RET_IPC_FAULT_EVENT, s')"
  shows "modem_state s' = BAD"
  using assms
  by (auto simp: nrf_fmfu_init_def failed_def faulted_def return_code_defs
      split: option.splits init_reply.splits)

lemma write_memory_chunk_fault_bad:
  assumes "nrf_fmfu_write_memory_chunk modem u memory_chunk s =
            (NRF_FMFU_RET_IPC_FAULT_EVENT, s')"
  shows "modem_state s' = BAD"
  using assms
  by (auto simp: nrf_fmfu_write_memory_chunk_def replied_def failed_def faulted_def
      return_code_defs split: option.splits modem_reply.splits)

text \<open>
  Once the modem is ready for IPC commands the destination address does reach the
  modem: a modem that accepts firmware at address 0 only tells two chunks apart that
  differ in nothing but their address.
\<close>

lemma firmware_chunk_uses_target_address:
  "fst (nrf_fmfu_write_memory_chunk
          (\<lambda>rq. case rq of BOOTLOADER_DATA bs \<Rightarrow> RESP_EXPECTED ()
                | FIRMWARE_DATA a bs \<Rightarrow> if a = 0 then RESP_EXPECTED () else RESP_CMD_ERROR)
          (\<lambda>code st. st)
          (Some \<lparr>target_address = 0, data_len = 2, data = [1, 2, 3]\<rparr>)
          \<lparr>modem_state = READY_FOR_IPC_COMMANDS, transfer_started = True,
           digest_mem = Map.empty, uint32_mem = Map.empty, uuid_mem = Map.empty\<rparr>)
     = NRF_FMFU_RET_SUCCESS
   \<and> fst (nrf_fmfu_write_memory_chunk
          (\<lambda>rq. case rq of BOOTLOADER_DATA bs \<Rightarrow> RESP_EXPECTED ()
                | FIRMWARE_DATA a bs \<Rightarrow> if a = 0 then RESP_EXPECTED () else RESP_CMD_ERROR)
          (\<lambda>code st. st)
          (Some \<lparr>target_address = 327680, data_len = 2, data = [1, 2, 3]\<rparr>)
          \<lparr>modem_state = READY_FOR_IPC_COMMANDS, transfer_started = True,
           digest_mem = Map.empty, uint32_mem = Map.empty, uuid_mem = Map.empty\<rparr>)
     = NRF_FMFU_RET_COMMAND_FAILED"
  by (simp add: nrf_fmfu_write_memory_chunk_def chunk_bytes_def replied_def failed_def)

subsection \<open>The claims about the functions\<close>

text \<open>
  C2. Each function that documents an output pointer returns
  \<^verbatim>\<open>NRF_FMFU_RET_INVALID_ARGUMENT\<close>, which is -6, when that pointer is \<^verbatim>\<open>NULL\<close>:
  \<^verbatim>\<open>nrf_fmfu_init\<close> for either of its two pointers, \<^verbatim>\<open>nrf_fmfu_get_memory_hash\<close>
  and \<^verbatim>\<open>nrf_fmfu_get_uuid\<close>, in every modem state and whatever the modem would reply.
\<close>

theorem null_output_pointer_invalid_argument:
  "fst (nrf_fmfu_init reply rpc_len u None modem_buffer_length s)
     = NRF_FMFU_RET_INVALID_ARGUMENT
   \<and> fst (nrf_fmfu_init reply rpc_len u digest_buffer None s)
     = NRF_FMFU_RET_INVALID_ARGUMENT
   \<and> fst (nrf_fmfu_get_memory_hash allowed modem u start_address end_address None s)
     = NRF_FMFU_RET_INVALID_ARGUMENT
   \<and> fst (nrf_fmfu_get_uuid allowed' reply' u None s) = NRF_FMFU_RET_INVALID_ARGUMENT
   \<and> NRF_FMFU_RET_INVALID_ARGUMENT = - 6"
  by (simp add: nrf_fmfu_init_def nrf_fmfu_get_memory_hash_def nrf_fmfu_get_uuid_def
      failed_def NRF_FMFU_RET_INVALID_ARGUMENT_def split: option.splits)

text \<open>
  C3. Whenever \<^verbatim>\<open>nrf_fmfu_init\<close> returns \<^verbatim>\<open>NRF_FMFU_RET_SUCCESS\<close>, both output
  pointers were given, the modem replied with a digest, that digest is in the caller's
  digest buffer, the reserved RPC buffer length is in \<open>modem_buffer_length\<close>, and the
  modem is in the waiting-for-bootloader state.
\<close>

theorem nrf_fmfu_init_success:
  assumes "nrf_fmfu_init reply rpc_len u digest_buffer modem_buffer_length s =
            (NRF_FMFU_RET_SUCCESS, s')"
  shows "\<exists>dp lp d. digest_buffer = Some dp \<and> modem_buffer_length = Some lp
           \<and> reply = INIT_DIGEST d
           \<and> digest_mem s' dp = Some d \<and> uint32_mem s' lp = Some rpc_len
           \<and> modem_state s' = WAITING_FOR_BOOTLOADER"
  using assms
  by (auto simp: nrf_fmfu_init_def failed_def faulted_def return_code_defs
      split: option.splits init_reply.splits)

theorem nrf_fmfu_init_success_witness:
  "nrf_fmfu_init (INIT_DIGEST (Abs_nrf_fmfu_digest_buffer_t (replicate 32 7))) 8216
      (\<lambda>code st. st) (Some 16) (Some 48)
      \<lparr>modem_state = BAD, transfer_started = False, digest_mem = Map.empty,
       uint32_mem = Map.empty, uuid_mem = Map.empty\<rparr>
    = (NRF_FMFU_RET_SUCCESS,
       \<lparr>modem_state = WAITING_FOR_BOOTLOADER, transfer_started = False,
        digest_mem = [16 \<mapsto> Abs_nrf_fmfu_digest_buffer_t (replicate 32 7)],
        uint32_mem = [48 \<mapsto> 8216], uuid_mem = Map.empty\<rparr>)
   \<and> (\<exists>dp lp d. Some (16 :: addr) = Some dp \<and> Some (48 :: addr) = Some lp
         \<and> INIT_DIGEST (Abs_nrf_fmfu_digest_buffer_t (replicate 32 7)) = INIT_DIGEST d
         \<and> [16 \<mapsto> Abs_nrf_fmfu_digest_buffer_t (replicate 32 7)] dp = Some d
         \<and> [48 \<mapsto> (8216 :: 32 word)] lp = Some 8216)"
proof -
  have run:
    "nrf_fmfu_init (INIT_DIGEST (Abs_nrf_fmfu_digest_buffer_t (replicate 32 7))) 8216
        (\<lambda>code st. st) (Some 16) (Some 48)
        \<lparr>modem_state = BAD, transfer_started = False, digest_mem = Map.empty,
         uint32_mem = Map.empty, uuid_mem = Map.empty\<rparr>
      = (NRF_FMFU_RET_SUCCESS,
         \<lparr>modem_state = WAITING_FOR_BOOTLOADER, transfer_started = False,
          digest_mem = [16 \<mapsto> Abs_nrf_fmfu_digest_buffer_t (replicate 32 7)],
          uint32_mem = [48 \<mapsto> 8216], uuid_mem = Map.empty\<rparr>)"
    by (simp add: nrf_fmfu_init_def)
  from nrf_fmfu_init_success [OF run] run show ?thesis
    by simp
qed

text \<open>
  C7. \<^verbatim>\<open>nrf_fmfu_get_modem_state\<close> has a result in every state of the library; the
  result is one of the four modem-state values, hence between 1 and 4, and is never one
  of the failure codes.
\<close>

theorem nrf_fmfu_get_modem_state_result:
  "nrf_fmfu_get_modem_state s \<in> set modem_states
   \<and> nrf_fmfu_get_modem_state s \<notin> set failure_codes
   \<and> 1 \<le> nrf_fmfu_get_modem_state s \<and> nrf_fmfu_get_modem_state s \<le> 4"
  by (cases "modem_state s")
    (simp_all add: nrf_fmfu_get_modem_state_def modem_states_def failure_codes_def
      return_code_defs modem_state_defs)

text \<open>
  C8. \<^verbatim>\<open>nrf_fmfu_transfer_start\<close> returns \<^verbatim>\<open>NRF_FMFU_RET_SUCCESS\<close> or
  \<^verbatim>\<open>NRF_FMFU_RET_INVALID_OPERATION\<close> and nothing else; it returns the latter exactly
  when the modem state does not allow a transfer to start, and success exactly when it
  does.
\<close>

theorem nrf_fmfu_transfer_start_codes:
  "fst (nrf_fmfu_transfer_start allowed u s)
     \<in> {NRF_FMFU_RET_SUCCESS, NRF_FMFU_RET_INVALID_OPERATION}
   \<and> (fst (nrf_fmfu_transfer_start allowed u s) = NRF_FMFU_RET_INVALID_OPERATION)
       = (\<not> allowed (modem_state s))
   \<and> (fst (nrf_fmfu_transfer_start allowed u s) = NRF_FMFU_RET_SUCCESS)
       = allowed (modem_state s)"
  by (simp add: nrf_fmfu_transfer_start_def failed_def return_code_defs)

end
